theory Spec2Isabelle
  imports Complex_Main "HOL-Library.AList"
begin

section \<open>Data model (app/database/models.py)\<close>

text \<open>
  Python integers are unbounded and are modelled by \<^typ>\<open>int\<close>. Several amounts of the
  program are Python floats (a veteran contract's later salaries are
  \<open>annual_salary + annual_salary * 0.05\<close>, the acceptance chance is a product of float
  factors); they are modelled by exact rationals, \<^typ>\<open>rat\<close>, so rounding of binary
  floating point is idealised away. Per-year salaries and cap hits hold either kind of
  number in the program and so have type \<^typ>\<open>rat\<close>.

  A column declared with \<open>default=\<close> carries that default in a freshly built row, as
  the services assume when they read a column of a row they have just built; a nullable
  column without default is an option.
\<close>

datatype datetime =
    Datetime int int int    \<comment> \<open>\<open>datetime(year, month, day)\<close>\<close>
  | Plus_days datetime int  \<comment> \<open>\<open>d + timedelta(days=n)\<close>, kept symbolic\<close>

text \<open>
  Error outcomes. The first six are the \<open>{"error": ...}\<close> dictionaries the services
  return; the last three are Python exceptions that a service lets escape.
\<close>

datatype error =
    Player_not_found           \<comment> \<open>"Player not found"\<close>
  | Contract_not_found         \<comment> \<open>"Contract not found"\<close>
  | Contract_not_active        \<comment> \<open>"Contract is not active"\<close>
  | Exceeds_salary             \<comment> \<open>"Restructure amount exceeds current year salary"\<close>
  | Other_team                 \<comment> \<open>"Player is under contract with another team"\<close>
  | Already_under_contract     \<comment> \<open>"Player is already under contract"\<close>
  | ZeroDivisionError
  | KeyError
  | ValueError

record player =
  p_id :: int
  position :: string
  age :: int
  years_pro :: int
  p_team_id :: "int option"
  overall_rating :: int
  work_ethic :: int

record contract =
  c_id :: "int option"   \<comment> \<open>primary key, assigned when the row is inserted\<close>
  player_id :: int
  team_id :: int
  total_value :: "int option"
  guaranteed_money :: int
  years :: int
  year_1_salary :: rat
  year_2_salary :: rat
  year_3_salary :: rat
  year_4_salary :: rat
  year_5_salary :: rat
  year_1_cap_hit :: rat
  year_2_cap_hit :: rat
  year_3_cap_hit :: rat
  year_4_cap_hit :: rat
  year_5_cap_hit :: rat
  signing_bonus :: int
  roster_bonus :: int
  workout_bonus :: int
  performance_bonus :: int
  is_rookie_contract :: bool
  rookie_scale_year :: "int option"
  contract_type :: "string option"
  is_active :: bool
  start_date :: datetime
  end_date :: datetime
  dead_money_year_1 :: int
  dead_money_year_2 :: int
  dead_money_year_3 :: int
  dead_money_year_4 :: int
  dead_money_year_5 :: int

text \<open>
  \<open>Contract(player_id=..., team_id=..., years=..., start_date=..., end_date=...)\<close>: the
  row with every other column at its default.
\<close>

definition Contract :: "int \<Rightarrow> int \<Rightarrow> int \<Rightarrow> datetime \<Rightarrow> datetime \<Rightarrow> contract" where
  "Contract pid tid n sd ed =
     \<lparr> c_id = None, player_id = pid, team_id = tid, total_value = None,
       guaranteed_money = 0, years = n,
       year_1_salary = 0, year_2_salary = 0, year_3_salary = 0, year_4_salary = 0,
       year_5_salary = 0,
       year_1_cap_hit = 0, year_2_cap_hit = 0, year_3_cap_hit = 0, year_4_cap_hit = 0,
       year_5_cap_hit = 0,
       signing_bonus = 0, roster_bonus = 0, workout_bonus = 0, performance_bonus = 0,
       is_rookie_contract = False, rookie_scale_year = None, contract_type = None,
       is_active = True, start_date = sd, end_date = ed,
       dead_money_year_1 = 0, dead_money_year_2 = 0, dead_money_year_3 = 0,
       dead_money_year_4 = 0, dead_money_year_5 = 0 \<rparr>"

subsection \<open>Per-year columns selected by constructed name\<close>

text \<open>
  \<open>getattr(contract, f"year_{k}_salary", 0)\<close> and its siblings: the column for
  \<open>k\<close> in 1..5, the default 0 for every other \<open>k\<close>.
\<close>

definition year_salary :: "contract \<Rightarrow> int \<Rightarrow> rat" where
  "year_salary c k =
     (if k = 1 then year_1_salary c else if k = 2 then year_2_salary c
      else if k = 3 then year_3_salary c else if k = 4 then year_4_salary c
      else if k = 5 then year_5_salary c else 0)"

definition year_cap_hit :: "contract \<Rightarrow> int \<Rightarrow> rat" where
  "year_cap_hit c k =
     (if k = 1 then year_1_cap_hit c else if k = 2 then year_2_cap_hit c
      else if k = 3 then year_3_cap_hit c else if k = 4 then year_4_cap_hit c
      else if k = 5 then year_5_cap_hit c else 0)"

definition dead_money_year :: "contract \<Rightarrow> int \<Rightarrow> int" where
  "dead_money_year c k =
     (if k = 1 then dead_money_year_1 c else if k = 2 then dead_money_year_2 c
      else if k = 3 then dead_money_year_3 c else if k = 4 then dead_money_year_4 c
      else if k = 5 then dead_money_year_5 c else 0)"

text \<open>
  \<open>setattr(contract, f"year_{i}_cap_hit", v)\<close>. The only caller enumerates at most the
  five salaries, so \<open>i\<close> is in 1..5; any other \<open>i\<close> would set an attribute that is no
  column and leaves the row as it is.
\<close>

definition set_year_cap_hit :: "int \<Rightarrow> rat \<Rightarrow> contract \<Rightarrow> contract" where
  "set_year_cap_hit i v c =
     (if i = 1 then c\<lparr>year_1_cap_hit := v\<rparr> else if i = 2 then c\<lparr>year_2_cap_hit := v\<rparr>
      else if i = 3 then c\<lparr>year_3_cap_hit := v\<rparr> else if i = 4 then c\<lparr>year_4_cap_hit := v\<rparr>
      else if i = 5 then c\<lparr>year_5_cap_hit := v\<rparr> else c)"

section \<open>SalaryCapService (app/services/salary_cap_service.py)\<close>

text \<open>The attributes set by \<open>SalaryCapService.__init__\<close>.\<close>

record service =
  current_year :: int
  base_cap :: int
  minimum_spend :: int
  rookie_pool :: int
  rookie_scale :: "int \<Rightarrow> (int \<Rightarrow> int option) option"

definition rookie_scale_2024 :: "int \<Rightarrow> (int \<Rightarrow> int option) option" where
  "rookie_scale_2024 =
     [ 1 \<mapsto> [1 \<mapsto> 10000000, 2 \<mapsto> 12000000, 3 \<mapsto> 14000000, 4 \<mapsto> 18000000, 5 \<mapsto> 22000000],
       2 \<mapsto> [1 \<mapsto> 8000000, 2 \<mapsto> 9000000, 3 \<mapsto> 10000000, 4 \<mapsto> 12000000, 5 \<mapsto> 14000000],
       3 \<mapsto> [1 \<mapsto> 6000000, 2 \<mapsto> 7000000, 3 \<mapsto> 8000000, 4 \<mapsto> 9000000, 5 \<mapsto> 10000000],
       4 \<mapsto> [1 \<mapsto> 4000000, 2 \<mapsto> 4500000, 3 \<mapsto> 5000000, 4 \<mapsto> 5500000, 5 \<mapsto> 6000000],
       5 \<mapsto> [1 \<mapsto> 3000000, 2 \<mapsto> 3200000, 3 \<mapsto> 3400000, 4 \<mapsto> 3600000, 5 \<mapsto> 3800000],
       6 \<mapsto> [1 \<mapsto> 2500000, 2 \<mapsto> 2600000, 3 \<mapsto> 2700000, 4 \<mapsto> 2800000, 5 \<mapsto> 2900000],
       7 \<mapsto> [1 \<mapsto> 2000000, 2 \<mapsto> 2100000, 3 \<mapsto> 2200000, 4 \<mapsto> 2300000, 5 \<mapsto> 2400000] ]"

definition SalaryCapService :: service where
  "SalaryCapService =
     \<lparr> current_year = 2024, base_cap = 255400000, minimum_spend = 230000000,
       rookie_pool = 10000000, rookie_scale = rookie_scale_2024 \<rparr>"

subsection \<open>calculate_contract_cap_hits\<close>

text \<open>
  \<open>xs[:n]\<close> as Python slices: a negative bound counts from the end of the list.
\<close>

definition py_prefix :: "int \<Rightarrow> 'a list \<Rightarrow> 'a list" where
  "py_prefix n xs = (if 0 \<le> n then take (nat n) xs else take (nat (int (length xs) + n)) xs)"

text \<open>
  The loop \<open>for i, salary in enumerate(salaries[:contract.years], 1)\<close>, threading the
  dictionary of cap hits (an association list keyed by year index, in insertion order)
  and the contract being updated. A year is written only when its salary is positive.
\<close>

fun cap_hits_loop ::
  "rat \<Rightarrow> int \<Rightarrow> rat list \<Rightarrow> (int \<times> rat) list \<times> contract \<Rightarrow> (int \<times> rat) list \<times> contract" where
  "cap_hits_loop pr i [] acc = acc"
| "cap_hits_loop pr i (salary # rest) (cap_hits, c) =
     (if salary > 0
      then cap_hits_loop pr (i + 1) rest
             (cap_hits @ [(i, salary + pr)], set_year_cap_hit i (salary + pr) c)
      else cap_hits_loop pr (i + 1) rest (cap_hits, c))"

definition signing_bonus_proration :: "contract \<Rightarrow> int" where
  "signing_bonus_proration c = (if years c > 0 then signing_bonus c div years c else 0)"

definition calculate_contract_cap_hits :: "contract \<Rightarrow> (int \<times> rat) list \<times> contract" where
  "calculate_contract_cap_hits c =
     (if \<not> is_active c then ([], c)
      else
        let salaries = [year_1_salary c, year_2_salary c, year_3_salary c,
                        year_4_salary c, year_5_salary c]
        in cap_hits_loop (of_int (signing_bonus_proration c)) 1
             (py_prefix (years c) salaries) ([], c))"

subsection \<open>The ledger\<close>

text \<open>
  The two tables the services query through \<open>self.db\<close>, each in row order.
  \<open>db.query(T).filter(P).all()\<close> is \<^const>\<open>filter\<close> and \<open>.first()\<close> is
  \<^const>\<open>List.find\<close> over the rows.
\<close>

record database =
  player_rows :: "player list"
  contract_rows :: "contract list"

subsection \<open>calculate_team_dead_money and calculate_team_salary_cap\<close>







subsection \<open>create_rookie_contract and create_veteran_contract\<close>

text \<open>\<open>datetime(year, month, day)\<close> raises ValueError outside the years 1..9999.\<close>

definition py_datetime :: "int \<Rightarrow> int \<Rightarrow> int \<Rightarrow> error + datetime" where
  "py_datetime y m d = (if 1 \<le> y \<and> y \<le> 9999 then Inr (Datetime y m d) else Inl ValueError)"


definition create_veteran_contract ::
  "service \<Rightarrow> player \<Rightarrow> int \<Rightarrow> int \<Rightarrow> int \<Rightarrow> int \<Rightarrow> int \<Rightarrow> datetime \<Rightarrow> error + contract" where
  "create_veteran_contract svc p tid base_salary n bonus roster now =
     (let annual_salary = (of_int base_salary :: rat)
      in case py_datetime (current_year svc + n) 3 1 of
           Inl e \<Rightarrow> Inl e
         | Inr ed \<Rightarrow>
             Inr (snd (calculate_contract_cap_hits
               ((Contract (p_id p) tid n now ed)
                  \<lparr> total_value := Some (base_salary * n + bonus + roster),
                    guaranteed_money := bonus,
                    year_1_salary := annual_salary,
                    year_2_salary := annual_salary + annual_salary * 0.05,
                    year_3_salary := annual_salary + annual_salary * 0.10,
                    year_4_salary := (if n > 3 then annual_salary + annual_salary * 0.15 else 0),
                    year_5_salary := (if n > 4 then annual_salary + annual_salary * 0.20 else 0),
                    signing_bonus := bonus,
                    roster_bonus := roster,
                    contract_type := Some ''veteran'',
                    is_active := True \<rparr>))))"

subsection \<open>restructure_contract and release_player\<close>

text \<open>
  Both mutate the contract they are given, so each returns the contract as it is left
  together with the outcome: also when the outcome is an exception raised after the
  contract was changed. The keys of the two result dictionaries carry the prefixes
  \<open>rs_\<close> and \<open>rl_\<close>.
\<close>

record restructure_result =
  rs_cap_savings :: rat
  rs_new_cap_hit :: rat
  rs_restructure_amount :: int

definition restructure_contract ::
  "contract \<Rightarrow> int \<Rightarrow> (error + restructure_result) \<times> contract" where
  "restructure_contract c restructure_amount =
     (if \<not> is_active c then (Inl Contract_not_active, c)
      else
        let current_year_salary = year_salary c 1
        in if current_year_salary < of_int restructure_amount then (Inl Exceeds_salary, c)
           else
             let new_signing_bonus = signing_bonus c + restructure_amount;
                 new_base_salary = current_year_salary - of_int restructure_amount;
                 c1 = c\<lparr>signing_bonus := new_signing_bonus, year_1_salary := new_base_salary\<rparr>;
                 c2 = snd (calculate_contract_cap_hits c1)
             in if years c2 = 0 then (Inl ZeroDivisionError, c2)
                else
                  let old_cap_hit = current_year_salary + of_int (signing_bonus c2 div years c2);
                      new_cap_hit = new_base_salary + of_int (new_signing_bonus div years c2)
                  in (Inr \<lparr> rs_cap_savings = old_cap_hit - new_cap_hit,
                             rs_new_cap_hit = new_cap_hit,
                             rs_restructure_amount = restructure_amount \<rparr>, c2))"

record release_result =
  rl_cap_savings :: rat
  rl_dead_money_current :: int
  rl_dead_money_next :: int
  rl_post_june_1 :: bool

definition release_player :: "contract \<Rightarrow> bool \<Rightarrow> (error + release_result) \<times> contract" where
  "release_player c post_june_1 =
     (if \<not> is_active c then (Inl Contract_not_active, c)
      else
        let remaining_signing_bonus = signing_bonus c;
            years_remaining = years c
        in if post_june_1 \<and> years_remaining = 0 then (Inl ZeroDivisionError, c)
           else
             let dead_money_current =
                   (if post_june_1 then remaining_signing_bonus div years_remaining
                    else remaining_signing_bonus);
                 dead_money_next =
                   (if post_june_1 then remaining_signing_bonus - dead_money_current else 0);
                 c' = c\<lparr> is_active := False,
                         dead_money_year_1 := dead_money_current,
                         dead_money_year_2 := dead_money_next \<rparr>;
                 current_year_cap_hit = year_cap_hit c' 1
             in (Inr \<lparr> rl_cap_savings = current_year_cap_hit - of_int dead_money_current,
                        rl_dead_money_current = dead_money_current,
                        rl_dead_money_next = dead_money_next,
                        rl_post_june_1 = post_june_1 \<rparr>, c'))"

section \<open>ContractService (app/services/contract_service.py)\<close>

definition get_player_contract :: "database \<Rightarrow> int \<Rightarrow> contract option" where
  "get_player_contract db pid =
     List.find (\<lambda>c. player_id c = pid \<and> is_active c) (contract_rows db)"

subsection \<open>Market valuation\<close>

text \<open>\<open>int(x)\<close> on a float truncates towards zero.\<close>

definition py_int :: "rat \<Rightarrow> int" where
  "py_int x = (if 0 \<le> x then \<lfloor>x\<rfloor> else \<lceil>x\<rceil>)"

definition market_position_multipliers :: "string \<Rightarrow> rat option" where
  "market_position_multipliers =
     [ ''QB'' \<mapsto> 1.5, ''DE'' \<mapsto> 1.3, ''WR'' \<mapsto> 1.2, ''CB'' \<mapsto> 1.1,
       ''LT'' \<mapsto> 1.2, ''TE'' \<mapsto> 1.0, ''RB'' \<mapsto> 0.9, ''ILB'' \<mapsto> 0.9 ]"

definition calculate_market_value :: "player \<Rightarrow> int \<Rightarrow> int \<Rightarrow> int" where
  "calculate_market_value p base_salary n =
     (let base_value = overall_rating p * 1000000;
          position_multiplier =
            (case market_position_multipliers (position p) of None \<Rightarrow> 1.0 | Some m \<Rightarrow> m);
          age_multiplier =
            (if age p \<le> 25 then 1.3 else if age p \<le> 28 then 1.1
             else if age p \<le> 31 then 1.0 else if age p \<le> 34 then 0.8 else 0.6);
          experience_multiplier =
            (if years_pro p \<le> 3 then 1.2 else if years_pro p \<le> 6 then 1.0 else 0.9)
      in py_int (of_int base_value * position_multiplier * age_multiplier
                   * experience_multiplier))"

text \<open>
  \<open>offered_salary / market_value\<close> is evaluated only when the offer is below the market
  value, and raises ZeroDivisionError when the market value is zero.
\<close>

definition calculate_acceptance_chance ::
  "database \<Rightarrow> player \<Rightarrow> int \<Rightarrow> int \<Rightarrow> error + rat" where
  "calculate_acceptance_chance db p market_value offered_salary =
     (let base_chance = (0.5 :: rat)
      in if \<not> offered_salary \<ge> market_value \<and> market_value = 0 then Inl ZeroDivisionError
         else
           let salary_factor =
                 (if offered_salary \<ge> market_value then 1.0
                  else max 0.1 (of_int offered_salary / of_int market_value));
               loyalty_factor =
                 (case get_player_contract db (p_id p) of
                    None \<Rightarrow> 1.0
                  | Some existing_contract \<Rightarrow>
                      if Some (team_id existing_contract) = p_team_id p then 1.2 else 1.0);
               work_ethic_factor = 0.8 + (of_int (work_ethic p) / 100) * 0.4;
               acceptance_chance =
                 base_chance * salary_factor * loyalty_factor * work_ethic_factor
           in Inr (min 0.95 (max 0.05 acceptance_chance)))"

subsection \<open>negotiate_contract_extension\<close>

text \<open>
  \<open>round(x, 1)\<close>: to one decimal, a tie going to the even neighbour.
\<close>

definition round_half_even :: "rat \<Rightarrow> int" where
  "round_half_even x =
     (let f = \<lfloor>x\<rfloor>; d = x - of_int f
      in if d < 1/2 then f else if d > 1/2 then f + 1 else if even f then f else f + 1)"

definition py_round1 :: "rat \<Rightarrow> rat" where
  "py_round1 x = of_int (round_half_even (x * 10)) / 10"

text \<open>
  Writing to the ledger. An attribute assignment on a row obtained by \<open>.first()\<close>
  changes that row, the first one matching the query. \<open>db.add\<close> followed by
  \<open>db.commit\<close> appends the row under a fresh primary key.
\<close>

fun update_first :: "('a \<Rightarrow> bool) \<Rightarrow> ('a \<Rightarrow> 'a) \<Rightarrow> 'a list \<Rightarrow> 'a list" where
  "update_first P f [] = []"
| "update_first P f (x # xs) = (if P x then f x # xs else x # update_first P f xs)"

definition fresh_id :: "contract list \<Rightarrow> int" where
  "fresh_id rows = fold (\<lambda>c m. case c_id c of None \<Rightarrow> m | Some i \<Rightarrow> max i m) rows 0 + 1"

definition db_add :: "contract \<Rightarrow> contract list \<Rightarrow> contract list" where
  "db_add c rows = rows @ [c\<lparr>c_id := Some (fresh_id rows)\<rparr>]"

text \<open>
  The two result dictionaries of a negotiation: the rejection, carrying
  \<open>market_value\<close> and \<open>acceptance_chance\<close> (the chance as a percentage, rounded to one
  decimal), and the signature, carrying \<open>contract_id\<close>, \<open>total_value\<close> and
  \<open>cap_hit_year_1\<close>.
\<close>

datatype negotiation =
    Rejected int rat
  | Signed int "int option" rat

text \<open>
  \<open>sample\<close> is the value \<open>random.random()\<close> returns, \<open>now\<close> that of
  \<open>datetime.now()\<close>.
\<close>

definition negotiate_contract_extension ::
  "service \<Rightarrow> database \<Rightarrow> int \<Rightarrow> int \<Rightarrow> int \<Rightarrow> int \<Rightarrow> int \<Rightarrow> rat \<Rightarrow> datetime
     \<Rightarrow> (error + negotiation) \<times> database" where
  "negotiate_contract_extension svc db pid tid base_salary n bonus sample now =
     (case List.find (\<lambda>p. p_id p = pid) (player_rows db) of
        None \<Rightarrow> (Inl Player_not_found, db)
      | Some p \<Rightarrow>
          let existing_contract = get_player_contract db pid
          in if (case existing_contract of None \<Rightarrow> False | Some e \<Rightarrow> team_id e \<noteq> tid)
             then (Inl Other_team, db)
             else
               let market_value = calculate_market_value p base_salary n
               in (case calculate_acceptance_chance db p market_value base_salary of
                    Inl e \<Rightarrow> (Inl e, db)
                  | Inr acceptance_chance \<Rightarrow>
                      if \<not> sample < acceptance_chance
                      then (Inr (Rejected market_value (py_round1 (acceptance_chance * 100))), db)
                      else
                        (case create_veteran_contract svc p tid base_salary n bonus 0 now of
                           Inl e \<Rightarrow> (Inl e, db)
                         | Inr new_contract \<Rightarrow>
                             let rows =
                                   (case existing_contract of
                                      None \<Rightarrow> contract_rows db
                                    | Some e \<Rightarrow>
                                        update_first (\<lambda>c. player_id c = pid \<and> is_active c)
                                          (\<lambda>c. c\<lparr>is_active := False\<rparr>) (contract_rows db));
                                 rows' = db_add new_contract rows
                             in (Inr (Signed (fresh_id rows) (total_value new_contract)
                                        (year_1_cap_hit new_contract)),
                                 db\<lparr>contract_rows := rows'\<rparr>))))"

subsection \<open>Restructure and release by contract id\<close>



subsection \<open>franchise_tag_player\<close>





section \<open>Sequences of lifecycle operations\<close>





section \<open>Example rows\<close>

text \<open>
  The contract of the restructure scenario: three years at 5,000,000, no signing bonus,
  cap hits derived.
\<close>

definition scenario_contract :: contract where
  "scenario_contract =
     (Contract 1 1 3 (Datetime 2024 1 1) (Datetime 2027 3 1))
       \<lparr> year_1_salary := 5000000, year_2_salary := 5000000, year_3_salary := 5000000,
         year_1_cap_hit := 5000000, year_2_cap_hit := 5000000, year_3_cap_hit := 5000000 \<rparr>"

text \<open>A four-year contract with a signing bonus of 10,000,000, cap hits derived.\<close>

definition bonus_contract :: contract where
  "bonus_contract =
     (Contract 2 1 4 (Datetime 2024 1 1) (Datetime 2028 3 1))
       \<lparr> year_1_salary := 4000000, year_2_salary := 4200000, year_3_salary := 4400000,
         year_4_salary := 4600000, signing_bonus := 10000000,
         year_1_cap_hit := 6500000, year_2_cap_hit := 6700000, year_3_cap_hit := 6900000,
         year_4_cap_hit := 7100000 \<rparr>"

definition sample_player :: player where
  "sample_player = \<lparr> p_id = 7, position = ''QB'', age = 27, years_pro = 5,
                       p_team_id = Some 1, overall_rating = 80, work_ethic = 50 \<rparr>"

definition sample_db :: database where
  "sample_db = \<lparr> player_rows = [sample_player], contract_rows = [] \<rparr>"

text \<open>
  A two-year contract that pays no salary in its first year: 3,000,000 in year 2 and a
  signing bonus of 2,000,000, cap hits not yet derived.
\<close>

definition deferred_contract :: contract where
  "deferred_contract =
     (Contract 3 1 2 (Datetime 2024 1 1) (Datetime 2026 3 1))
       \<lparr> year_2_salary := 3000000, signing_bonus := 2000000 \<rparr>"

text \<open>An active row whose \<open>years\<close> column is 0.\<close>

definition zero_year_contract :: contract where
  "zero_year_contract =
     (Contract 4 1 0 (Datetime 2024 1 1) (Datetime 2024 3 1))
       \<lparr> year_1_salary := 5000000, signing_bonus := 3000000 \<rparr>"



section \<open>Cap-hit derivation changes cap hits only\<close>

lemma cap_hits_loop_keep:
  assumes "\<And>i v c. f (set_year_cap_hit i v c) = f c"
  shows "f (snd (cap_hits_loop pr i xs (d, c))) = f c"
  using assms by (induction xs arbitrary: i d c) auto

lemma calculate_contract_cap_hits_keep:
  assumes "\<And>i v c. f (set_year_cap_hit i v c) = f c"
  shows "f (snd (calculate_contract_cap_hits c)) = f c"
  using cap_hits_loop_keep[of f, OF assms]
  by (simp add: calculate_contract_cap_hits_def Let_def)

lemma cap_hits_keep:
  "player_id (snd (calculate_contract_cap_hits c)) = player_id c"
  "is_active (snd (calculate_contract_cap_hits c)) = is_active c"
  "years (snd (calculate_contract_cap_hits c)) = years c"
  "signing_bonus (snd (calculate_contract_cap_hits c)) = signing_bonus c"
  "team_id (snd (calculate_contract_cap_hits c)) = team_id c"
  by (rule calculate_contract_cap_hits_keep, simp add: set_year_cap_hit_def)+

section \<open>Restructuring\<close>

text \<open>
  A restructure that succeeds reports the restructure amount itself as its savings:
  both cap hits it subtracts carry the proration of the new signing bonus.
\<close>

lemma restructure_contract_savings:
  assumes "is_active c" and "years c \<noteq> 0" and "of_int amount \<le> year_salary c 1"
  shows "fst (restructure_contract c amount) =
           Inr \<lparr> rs_cap_savings = of_int amount,
                 rs_new_cap_hit = year_salary c 1 - of_int amount
                                    + of_int ((signing_bonus c + amount) div years c),
                 rs_restructure_amount = amount \<rparr>"
  using assms by (simp add: restructure_contract_def Let_def cap_hits_keep)

text \<open>
  Claim C1 says that \<open>restructure_contract\<close> reports as \<open>cap_savings\<close> the year-1 cap hit
  before the restructure, computed from the signing-bonus proration as it was before
  the mutation, minus the year-1 cap hit after it. On the scenario contract (year-1
  salary 5,000,000, no signing bonus, three years) restructured by 2,000,000 the cap hit
  before is 5,000,000 and the one after is 3,666,666, a difference of 1,333,334. The
  function reads the signing bonus back after having overwritten it, so its
  \<open>old_cap_hit\<close> already holds the new proration and the savings it reports are the
  restructure amount, 2,000,000.
\<close>

theorem restructure_contract_scenario:
  "fst (restructure_contract scenario_contract 2000000) =
     Inr \<lparr> rs_cap_savings = 2000000, rs_new_cap_hit = 3666666, rs_restructure_amount = 2000000 \<rparr>
   \<and> year_salary scenario_contract 1
        + of_int (signing_bonus scenario_contract div years scenario_contract) = 5000000"
  by (simp add: restructure_contract_def scenario_contract_def Contract_def year_salary_def
        calculate_contract_cap_hits_def py_prefix_def signing_bonus_proration_def
        set_year_cap_hit_def)

section \<open>Contract creation\<close>

text \<open>
  Claim C5 says that a contract made by any creation path with \<open>years = n\<close> in 1..5 has
  salary, cap hit and dead money zero in every year beyond \<open>n\<close>. The veteran
  constructor, which the extension path uses as well, zeroes only years 4 and 5 (and
  the rookie constructor only year 5): a one-year veteran contract at 1,000,000 carries
  salaries of 1,050,000 in year 2 and 1,100,000 in year 3. Its cap hits and dead money
  beyond year 1 are zero.
\<close>

theorem create_veteran_contract_one_year:
  "\<exists>c. create_veteran_contract SalaryCapService sample_player 1 1000000 1 0 0
           (Datetime 2024 3 10) = Inr c
       \<and> years c = 1 \<and> year_salary c 2 = 1050000 \<and> year_salary c 3 = 1100000
       \<and> year_cap_hit c 2 = 0 \<and> year_cap_hit c 3 = 0
       \<and> dead_money_year c 2 = 0 \<and> dead_money_year c 3 = 0"
  by (simp add: create_veteran_contract_def SalaryCapService_def py_datetime_def
        sample_player_def Contract_def calculate_contract_cap_hits_def py_prefix_def
        signing_bonus_proration_def set_year_cap_hit_def year_salary_def year_cap_hit_def
        dead_money_year_def)

section \<open>Release\<close>

text \<open>
  Claim C7: releasing an active contract with signing bonus \<open>B\<close> and \<open>r > 0\<close> years
  succeeds, deactivates the contract and stamps the dead money: all of \<open>B\<close> in year 1
  and nothing in year 2 before June 1; \<open>B div r\<close> in year 1 and the rest of \<open>B\<close> in year
  2 after June 1. Either way the two add up to \<open>B\<close>, and the reported cap savings are
  the year-1 cap hit the contract had minus the year-1 dead money.
\<close>

theorem release_player_dead_money:
  assumes "is_active c" and "years c > 0"
  shows "\<exists>res c'. release_player c post_june_1 = (Inr res, c')
           \<and> \<not> is_active c'
           \<and> dead_money_year_1 c' =
               (if post_june_1 then signing_bonus c div years c else signing_bonus c)
           \<and> dead_money_year_2 c' =
               (if post_june_1 then signing_bonus c - signing_bonus c div years c else 0)
           \<and> dead_money_year_1 c' + dead_money_year_2 c' = signing_bonus c
           \<and> rl_cap_savings res = year_cap_hit c 1 - of_int (dead_money_year_1 c')"
  using assms by (simp add: release_player_def Let_def year_cap_hit_def)

theorem release_player_dead_money_witness:
  "is_active bonus_contract \<and> years bonus_contract > 0
   \<and> (\<exists>res c'. release_player bonus_contract True = (Inr res, c')
           \<and> \<not> is_active c'
           \<and> dead_money_year_1 c' =
               (if True then signing_bonus bonus_contract div years bonus_contract
                else signing_bonus bonus_contract)
           \<and> dead_money_year_2 c' =
               (if True
                then signing_bonus bonus_contract
                       - signing_bonus bonus_contract div years bonus_contract
                else 0)
           \<and> dead_money_year_1 c' + dead_money_year_2 c' = signing_bonus bonus_contract
           \<and> rl_cap_savings res = year_cap_hit bonus_contract 1 - of_int (dead_money_year_1 c'))"
proof -
  have a: "is_active bonus_contract" by (simp add: bonus_contract_def Contract_def)
  have y: "years bonus_contract > 0" by (simp add: bonus_contract_def Contract_def)
  from a y release_player_dead_money[OF a y, of True] show ?thesis by blast
qed

text \<open>
  Claim C10: releasing an active contract changes at most \<open>is_active\<close> and the dead money
  of years 1 and 2. Every other column keeps its value; in particular the dead money of
  years 3 to 5 is what it was, however many years the contract runs.
\<close>

theorem release_player_frame:
  assumes "is_active c" and "release_player c post_june_1 = (out, c')"
  shows "c' = c\<lparr> is_active := is_active c', dead_money_year_1 := dead_money_year_1 c',
                  dead_money_year_2 := dead_money_year_2 c' \<rparr>
         \<and> dead_money_year_3 c' = dead_money_year_3 c
         \<and> dead_money_year_4 c' = dead_money_year_4 c
         \<and> dead_money_year_5 c' = dead_money_year_5 c"
  using assms by (auto simp add: release_player_def Let_def split: if_splits)

theorem release_player_frame_witness:
  "is_active bonus_contract
   \<and> snd (release_player bonus_contract True) =
       bonus_contract\<lparr> is_active := False, dead_money_year_1 := 2500000,
                        dead_money_year_2 := 7500000 \<rparr>
   \<and> dead_money_year_3 (snd (release_player bonus_contract True)) = 0"
proof -
  have a: "is_active bonus_contract" by (simp add: bonus_contract_def Contract_def)
  have r: "release_player bonus_contract True =
             (fst (release_player bonus_contract True), snd (release_player bonus_contract True))"
    by simp
  have v: "is_active (snd (release_player bonus_contract True)) = False"
      "dead_money_year_1 (snd (release_player bonus_contract True)) = 2500000"
      "dead_money_year_2 (snd (release_player bonus_contract True)) = 7500000"
      "dead_money_year_3 bonus_contract = 0"
    by (simp_all add: release_player_def bonus_contract_def Contract_def Let_def)
  from release_player_frame[OF a r] v a show ?thesis by simp
qed

section \<open>Market valuation and negotiation\<close>

lemma clamp_bounds:
  "(0.05::rat) \<le> min 0.95 (max 0.05 x) \<and> min 0.95 (max 0.05 x) \<le> 0.95"
  by (simp add: min_def max_def)

text \<open>
  Claim C9: for a non-negative offered salary, whatever the player and the market value,
  \<open>calculate_acceptance_chance\<close> returns a chance, and the chance lies between 0.05 and
  0.95.
\<close>

theorem calculate_acceptance_chance_bounds:
  assumes "0 \<le> offered_salary"
  shows "\<exists>chance. calculate_acceptance_chance db p market_value offered_salary = Inr chance
           \<and> 0.05 \<le> chance \<and> chance \<le> 0.95"
proof -
  have no_fault: "\<not> (\<not> offered_salary \<ge> market_value \<and> market_value = 0)"
    using assms by linarith
  show ?thesis
    unfolding calculate_acceptance_chance_def Let_def
    by (simp only: no_fault if_False) (rule exI, rule conjI, rule refl, rule clamp_bounds)
qed

theorem calculate_acceptance_chance_bounds_witness:
  "(0::int) \<le> 66000000
   \<and> (\<exists>chance. calculate_acceptance_chance sample_db sample_player 132000000 66000000
                  = Inr chance
           \<and> 0.05 \<le> chance \<and> chance \<le> 0.95)"
proof -
  have h: "(0::int) \<le> 66000000" by simp
  from h calculate_acceptance_chance_bounds[OF h] show ?thesis by blast
qed

text \<open>
  Claim C8: when the player is known, is not under contract with another team, and the
  sample drawn is not below the acceptance chance, \<open>negotiate_contract_extension\<close>
  returns the rejection, carrying the market value and the acceptance chance (as a
  rounded percentage), and the ledger is exactly what it was.
\<close>

theorem negotiate_rejection_no_mutation:
  assumes "List.find (\<lambda>p. p_id p = pid) (player_rows db) = Some p"
    and "case get_player_contract db pid of None \<Rightarrow> True | Some e \<Rightarrow> team_id e = tid"
    and "calculate_acceptance_chance db p (calculate_market_value p base_salary n) base_salary
           = Inr chance"
    and "chance \<le> sample"
  shows "negotiate_contract_extension svc db pid tid base_salary n bonus sample now
           = (Inr (Rejected (calculate_market_value p base_salary n) (py_round1 (chance * 100))),
              db)"
  using assms by (auto simp add: negotiate_contract_extension_def Let_def split: option.splits)

theorem negotiate_rejection_no_mutation_witness:
  "negotiate_contract_extension SalaryCapService sample_db 7 1 66000000 3 0 (1/2)
       (Datetime 2024 3 10)
     = (Inr (Rejected 132000000 25), sample_db)"
proof -
  have f: "List.find (\<lambda>p. p_id p = 7) (player_rows sample_db) = Some sample_player"
    by (simp add: sample_db_def sample_player_def)
  have g: "case get_player_contract sample_db 7 of None \<Rightarrow> True | Some e \<Rightarrow> team_id e = 1"
    by (simp add: get_player_contract_def sample_db_def)
  have mv: "calculate_market_value sample_player 66000000 3 = 132000000"
    by (simp add: calculate_market_value_def sample_player_def market_position_multipliers_def
          py_int_def)
  have ch0: "calculate_acceptance_chance sample_db sample_player 132000000 66000000 = Inr (1/4)"
    by (simp add: calculate_acceptance_chance_def sample_db_def sample_player_def
          get_player_contract_def)
  have ch: "calculate_acceptance_chance sample_db sample_player
              (calculate_market_value sample_player 66000000 3) 66000000 = Inr (1/4)"
    by (simp only: mv ch0)
  have s: "(1/4 :: rat) \<le> 1/2" by simp
  have r: "py_round1 (1/4 * 100) = 25" by (simp add: py_round1_def round_half_even_def)
  from negotiate_rejection_no_mutation[OF f g ch s, of SalaryCapService 0 "Datetime 2024 3 10"]
  show ?thesis by (simp only: mv r)
qed

section \<open>Cap hits of a contract\<close>

lemma year_cap_hit_set:
  "year_cap_hit (set_year_cap_hit i v c) k =
     (if k = i \<and> 1 \<le> i \<and> i \<le> 5 then v else year_cap_hit c k)"
  by (simp add: year_cap_hit_def set_year_cap_hit_def)

lemma nth_Cons_int:
  "i < k \<Longrightarrow> (x # xs) ! nat (k - i) = xs ! nat (k - (i + 1))"
proof -
  assume "i < k"
  then have "nat (k - i) = Suc (nat (k - (i + 1)))" by linarith
  then show ?thesis by simp
qed

text \<open>
  What the loop leaves in the cap hit of year \<open>k\<close>: salary plus proration when the loop
  visits year \<open>k\<close>, the year is a column, and its salary is positive; the old value
  otherwise.
\<close>

lemma cap_hits_loop_hit:
  "year_cap_hit (snd (cap_hits_loop pr i xs (d, c))) k =
     (if i \<le> k \<and> k < i + int (length xs) \<and> 1 \<le> k \<and> k \<le> 5 \<and> xs ! nat (k - i) > 0
      then xs ! nat (k - i) + pr else year_cap_hit c k)"
proof (induction xs arbitrary: i d c k)
  case Nil
  show ?case by simp
next
  case (Cons x xs)
  consider "k < i" | "k = i" | "i < k" by linarith
  then show ?case
  proof cases
    case 1
    then show ?thesis by (simp add: Cons.IH year_cap_hit_set)
  next
    case 2
    then show ?thesis by (simp add: Cons.IH year_cap_hit_set)
  next
    case 3
    then have n: "(x # xs) ! nat (k - i) = xs ! nat (k - (i + 1))" by (rule nth_Cons_int)
    from 3 show ?thesis by (simp add: Cons.IH year_cap_hit_set n del: nth_Cons_Suc)
  qed
qed

lemma salaries_nth:
  assumes "1 \<le> y" "y \<le> 5"
  shows "[year_1_salary c, year_2_salary c, year_3_salary c, year_4_salary c, year_5_salary c]
           ! nat (y - 1) = year_salary c y"
proof -
  from assms have "y = 1 \<or> y = 2 \<or> y = 3 \<or> y = 4 \<or> y = 5" by linarith
  then show ?thesis by (auto simp add: year_salary_def)
qed

lemma derived_cap_hit:
  assumes "is_active c" "1 \<le> years c" "years c \<le> 5" "1 \<le> y" "y \<le> years c"
  shows "year_cap_hit (snd (calculate_contract_cap_hits c)) y =
           (if year_salary c y > 0 then year_salary c y + of_int (signing_bonus c div years c)
            else year_cap_hit c y)"
proof -
  let ?xs = "[year_1_salary c, year_2_salary c, year_3_salary c, year_4_salary c, year_5_salary c]"
  have len: "int (length (py_prefix (years c) ?xs)) = years c"
    using assms by (simp add: py_prefix_def)
  have nth: "py_prefix (years c) ?xs ! nat (y - 1) = year_salary c y"
  proof -
    have "nat (y - 1) < nat (years c)" using assms by linarith
    then have "py_prefix (years c) ?xs ! nat (y - 1) = ?xs ! nat (y - 1)"
      using assms by (simp add: py_prefix_def)
    also have "\<dots> = year_salary c y" using assms by (intro salaries_nth) auto
    finally show ?thesis .
  qed
  have pr: "signing_bonus_proration c = signing_bonus c div years c"
    using assms by (simp add: signing_bonus_proration_def)
  have "year_cap_hit (snd (calculate_contract_cap_hits c)) y =
          year_cap_hit (snd (cap_hits_loop (of_int (signing_bonus c div years c)) 1
             (py_prefix (years c) ?xs) ([], c))) y"
    using assms by (simp add: calculate_contract_cap_hits_def pr)
  also have "\<dots> = (if year_salary c y > 0 then year_salary c y + of_int (signing_bonus c div years c)
            else year_cap_hit c y)"
    unfolding cap_hits_loop_hit len nth using assms by simp
  finally show ?thesis .
qed

text \<open>
  Claim C2 says that after deriving the cap hits of an active contract of \<open>n\<close> years,
  \<open>1 \<le> n \<le> 5\<close>, every year \<open>y\<close> in \<open>1..n\<close> has
  \<open>cap_hit[y] = salary[y] + signing_bonus div n\<close>, also a year whose salary is zero,
  and that the cap hits of the \<open>n\<close> years therefore add up to the salaries plus \<open>n\<close>
  prorations. The derivation writes a year only \<open>if salary > 0\<close>. The contract that
  defers all salary to its second year is left with a year-1 cap hit of 0, where the
  claim puts the proration, 1,000,000.
\<close>

theorem calculate_contract_cap_hits_zero_salary:
  "is_active deferred_contract \<and> years deferred_contract = 2
   \<and> year_salary deferred_contract 1 = 0
   \<and> year_salary deferred_contract 1
        + of_int (signing_bonus deferred_contract div years deferred_contract) = 1000000
   \<and> year_cap_hit (snd (calculate_contract_cap_hits deferred_contract)) 1 = 0"
  by (simp add: deferred_contract_def Contract_def year_salary_def year_cap_hit_def
        calculate_contract_cap_hits_def py_prefix_def signing_bonus_proration_def
        set_year_cap_hit_def)

text \<open>
  Claim C2, amended: after deriving the cap hits of an active contract of \<open>n\<close> years,
  \<open>1 \<le> n \<le> 5\<close>, every year \<open>y\<close> in \<open>1..n\<close> with a positive salary has
  \<open>cap_hit[y] = salary[y] + signing_bonus div n\<close>, and a year whose salary is not
  positive keeps the cap hit it had. When every year in \<open>1..n\<close> has a positive salary,
  the cap hits of the \<open>n\<close> years add up to the salaries plus \<open>n\<close> prorations.
\<close>

theorem calculate_contract_cap_hits_positive_salaries:
  assumes "is_active c" and "1 \<le> years c" and "years c \<le> 5"
  shows "(\<forall>y\<in>{1..years c}.
            year_cap_hit (snd (calculate_contract_cap_hits c)) y =
              (if year_salary c y > 0
               then year_salary c y + of_int (signing_bonus c div years c)
               else year_cap_hit c y))
         \<and> ((\<forall>y\<in>{1..years c}. year_salary c y > 0) \<longrightarrow>
              (\<Sum>y\<in>{1..years c}. year_cap_hit (snd (calculate_contract_cap_hits c)) y) =
                (\<Sum>y\<in>{1..years c}. year_salary c y)
                  + of_int (years c * (signing_bonus c div years c)))"
proof (intro conjI impI)
  show pointwise: "\<forall>y\<in>{1..years c}.
            year_cap_hit (snd (calculate_contract_cap_hits c)) y =
              (if year_salary c y > 0
               then year_salary c y + of_int (signing_bonus c div years c)
               else year_cap_hit c y)"
    using assms by (auto simp add: derived_cap_hit simp del: of_int_add)
  assume pos: "\<forall>y\<in>{1..years c}. year_salary c y > 0"
  have "(\<Sum>y\<in>{1..years c}. year_cap_hit (snd (calculate_contract_cap_hits c)) y) =
        (\<Sum>y\<in>{1..years c}. year_salary c y + of_int (signing_bonus c div years c))"
    using pointwise pos by (intro sum.cong) auto
  also have "\<dots> = (\<Sum>y\<in>{1..years c}. year_salary c y)
                  + of_int (years c * (signing_bonus c div years c))"
    using assms by (simp add: sum.distrib)
  finally show "(\<Sum>y\<in>{1..years c}. year_cap_hit (snd (calculate_contract_cap_hits c)) y) =
                (\<Sum>y\<in>{1..years c}. year_salary c y)
                  + of_int (years c * (signing_bonus c div years c))" .
qed

theorem calculate_contract_cap_hits_positive_salaries_witness:
  "is_active bonus_contract \<and> 1 \<le> years bonus_contract \<and> years bonus_contract \<le> 5
   \<and> year_salary bonus_contract 1 > 0 \<and> year_salary bonus_contract 2 > 0
   \<and> year_salary bonus_contract 3 > 0 \<and> year_salary bonus_contract 4 > 0
   \<and> year_cap_hit (snd (calculate_contract_cap_hits bonus_contract)) 2 = 6700000
   \<and> (\<Sum>y\<in>{1..years bonus_contract}.
          year_cap_hit (snd (calculate_contract_cap_hits bonus_contract)) y) =
       (\<Sum>y\<in>{1..years bonus_contract}. year_salary bonus_contract y)
         + of_int (years bonus_contract
                    * (signing_bonus bonus_contract div years bonus_contract))"
proof -
  have a: "is_active bonus_contract" by (simp add: bonus_contract_def Contract_def)
  have l: "1 \<le> years bonus_contract" by (simp add: bonus_contract_def Contract_def)
  have u: "years bonus_contract \<le> 5" by (simp add: bonus_contract_def Contract_def)
  have n: "years bonus_contract = 4" by (simp add: bonus_contract_def Contract_def)
  have pos: "\<forall>y\<in>{1..years bonus_contract}. year_salary bonus_contract y > 0"
    unfolding n by (auto simp add: bonus_contract_def Contract_def year_salary_def)
  have two: "(2::int) \<in> {1..years bonus_contract}" unfolding n by simp
  have s2: "year_salary bonus_contract 2 = 4200000" "signing_bonus bonus_contract = 10000000"
    by (simp_all add: bonus_contract_def Contract_def year_salary_def)
  note both = calculate_contract_cap_hits_positive_salaries[OF a l u]
  from both[THEN conjunct1, rule_format, OF two]
  have h2: "year_cap_hit (snd (calculate_contract_cap_hits bonus_contract)) 2 = 6700000"
    by (simp add: s2 n)
  have each: "year_salary bonus_contract 1 > 0" "year_salary bonus_contract 2 > 0"
      "year_salary bonus_contract 3 > 0" "year_salary bonus_contract 4 > 0"
    by (simp_all add: bonus_contract_def Contract_def year_salary_def)
  from both[THEN conjunct2, THEN mp, OF pos] a l u each h2 show ?thesis by blast
qed

section \<open>Contracts of zero years\<close>

text \<open>
  Claim C4 says that cap-hit derivation, restructure and post-June-1 release each answer
  a contract with \<open>years = 0\<close> with an InvalidContractTerms error result, without raising
  a division fault and without putting zero in place of the proration. The program has
  no such result. On the active zero-year contract the derivation takes the proration
  to be zero and returns normally, with an empty dictionary and the contract untouched,
  while restructure and post-June-1 release end in ZeroDivisionError.
\<close>

theorem zero_years_not_rejected:
  "years zero_year_contract = 0 \<and> is_active zero_year_contract
   \<and> signing_bonus_proration zero_year_contract = 0
   \<and> calculate_contract_cap_hits zero_year_contract = ([], zero_year_contract)
   \<and> fst (restructure_contract zero_year_contract 1000000) = Inl ZeroDivisionError
   \<and> fst (release_player zero_year_contract True) = Inl ZeroDivisionError"
  by (simp add: zero_year_contract_def Contract_def signing_bonus_proration_def
        calculate_contract_cap_hits_def py_prefix_def restructure_contract_def
        release_player_def year_salary_def Let_def)

text \<open>
  Claim C4, amended: cap-hit derivation does not reject an active contract with
  \<open>years = 0\<close>. It takes the proration to be zero, visits no year, and returns the empty
  dictionary with the contract unchanged. (What restructure and post-June-1 release do
  with such a contract is not part of this statement.)
\<close>

theorem calculate_contract_cap_hits_zero_years:
  assumes "is_active c" and "years c = 0"
  shows "signing_bonus_proration c = 0 \<and> calculate_contract_cap_hits c = ([], c)"
  using assms
  by (simp add: signing_bonus_proration_def calculate_contract_cap_hits_def py_prefix_def)

theorem calculate_contract_cap_hits_zero_years_witness:
  "is_active zero_year_contract \<and> years zero_year_contract = 0
   \<and> signing_bonus_proration zero_year_contract = 0
   \<and> calculate_contract_cap_hits zero_year_contract = ([], zero_year_contract)"
proof -
  have a: "is_active zero_year_contract" by (simp add: zero_year_contract_def Contract_def)
  have z: "years zero_year_contract = 0" by (simp add: zero_year_contract_def Contract_def)
  from a z calculate_contract_cap_hits_zero_years[OF a z] show ?thesis by blast
qed

section \<open>At most one active contract per player\<close>



















section \<open>Team cap summary\<close>










end
